theory Spec2Isabelle
  imports Complex_Main
begin

section \<open>Numbers, errors and constants of \<open>orb_math.py\<close>\<close>

text \<open>
  Python floats and numpy float64 arrays are embedded as \<^typ>\<open>real\<close> and lists of reals:
  the arithmetic is exact, so rounding, overflow and the values \<open>nan\<close>/\<open>inf\<close> that numpy
  produces (with a warning, not an exception) for a division by zero or a square root of a
  negative number are outside the model. Every exception the source can raise on
  well-typed arguments is a value of \<open>error\<close>.
\<close>

datatype error = ValueError | ZeroDivisionError | IndexError | OverflowError | TypeError

text \<open>
  \<open>raise_or r f\<close> continues with \<open>f\<close> on the value of \<open>r\<close>, or propagates the exception \<open>r\<close>
  raised: statements run in order and the first exception ends the function.
\<close>

definition raise_or :: "error + 'a \<Rightarrow> ('a \<Rightarrow> error + 'b) \<Rightarrow> error + 'b" where
  "raise_or r f = (case r of Inl err \<Rightarrow> Inl err | Inr x \<Rightarrow> f x)"

type_synonym vec3 = "real \<times> real \<times> real"
type_synonym mat3 = "vec3 \<times> vec3 \<times> vec3"

definition MU_EARTH :: real where
  "MU_EARTH = 398600.4418"

definition OMEGA_EARTH :: real where
  "OMEGA_EARTH = 7.2921150 / 10 ^ 5"

definition deg2rad :: "real \<Rightarrow> real" where
  "deg2rad d = d * (pi / 180)"

definition rad2deg :: "real \<Rightarrow> real" where
  "rad2deg r = r * (180 / pi)"

text \<open>The operator \<open>%\<close> on floats: the result has the sign of the divisor.\<close>

definition pymod :: "real \<Rightarrow> real \<Rightarrow> real" where
  "pymod x y = x - y * of_int \<lfloor>x / y\<rfloor>"

text \<open>The expression \<open>(M + np.pi) % (2*np.pi) - np.pi\<close>, used by the solver and the propagator.\<close>

definition normalize_M :: "real \<Rightarrow> real" where
  "normalize_M M = pymod (M + pi) (2 * pi) - pi"

text \<open>\<open>np.arctan2(y, x)\<close>, the angle of the point \<open>(x, y)\<close> in \<open>(-\<pi>, \<pi>]\<close>.\<close>

definition arctan2 :: "real \<Rightarrow> real \<Rightarrow> real" where
  "arctan2 y x =
     (if 0 < x then arctan (y / x)
      else if x < 0 \<and> 0 \<le> y then arctan (y / x) + pi
      else if x < 0 then arctan (y / x) - pi
      else if 0 < y then pi / 2
      else if y < 0 then - (pi / 2)
      else 0)"

definition norm3 :: "vec3 \<Rightarrow> real" where
  "norm3 v = (case v of (x, y, z) \<Rightarrow> sqrt (x\<^sup>2 + y\<^sup>2 + z\<^sup>2))"

definition matvec :: "mat3 \<Rightarrow> vec3 \<Rightarrow> vec3" where
  "matvec A v =
     (case A of ((a11, a12, a13), (a21, a22, a23), (a31, a32, a33)) \<Rightarrow>
      case v of (x, y, z) \<Rightarrow>
        (a11 * x + a12 * y + a13 * z,
         a21 * x + a22 * y + a23 * z,
         a31 * x + a32 * y + a33 * z))"

definition matmul :: "mat3 \<Rightarrow> mat3 \<Rightarrow> mat3" where
  "matmul A B =
     (case A of ((a11, a12, a13), (a21, a22, a23), (a31, a32, a33)) \<Rightarrow>
      case B of ((b11, b12, b13), (b21, b22, b23), (b31, b32, b33)) \<Rightarrow>
        ((a11 * b11 + a12 * b21 + a13 * b31,
          a11 * b12 + a12 * b22 + a13 * b32,
          a11 * b13 + a12 * b23 + a13 * b33),
         (a21 * b11 + a22 * b21 + a23 * b31,
          a21 * b12 + a22 * b22 + a23 * b32,
          a21 * b13 + a22 * b23 + a23 * b33),
         (a31 * b11 + a32 * b21 + a33 * b31,
          a31 * b12 + a32 * b22 + a33 * b32,
          a31 * b13 + a32 * b23 + a33 * b33)))"

section \<open>The Kepler solver \<open>kepler_E\<close>\<close>

text \<open>
  One Newton update of the loop body, for one sample:
  \<open>f = E - e*sin(E) - M\<close>, \<open>fp = 1 - e*cos(E)\<close>, \<open>dE = -f / fp\<close>.
\<close>

definition newton_dE :: "real \<Rightarrow> real \<Rightarrow> real \<Rightarrow> real" where
  "newton_dE e M E = - (E - e * sin E - M) / (1 - e * cos E)"

text \<open>
  The loop \<open>for _ in range(maxiter)\<close>: the whole batch is updated, then the loop is left as
  soon as every step of the batch is below \<open>tol\<close>.
\<close>

fun kepler_loop :: "nat \<Rightarrow> real \<Rightarrow> real \<Rightarrow> real list \<Rightarrow> real list \<Rightarrow> real list" where
  "kepler_loop 0 e tol M E = E"
| "kepler_loop (Suc k) e tol M E =
     (let dE = map2 (newton_dE e) M E;
          E' = map2 (+) E dE
      in if list_all (\<lambda>d. \<bar>d\<bar> < tol) dE then E' else kepler_loop k e tol M E')"

text \<open>
  \<open>kepler_E(M, e, tol, maxiter)\<close> for a batch \<open>M\<close> (a sequence or one-dimensional array) and
  one eccentricity \<open>e\<close>, as \<open>propagate_orbit\<close> calls it. The mask \<open>np.abs(e) > 0.8\<close> is then a
  single boolean, and \<open>E[mask] = np.pi\<close> sets every entry of the batch.
\<close>

definition kepler_E :: "real list \<Rightarrow> real \<Rightarrow> real \<Rightarrow> nat \<Rightarrow> real list" where
  "kepler_E M e tol maxiter =
     (let M' = map normalize_M M;
          E0 = (if \<bar>e\<bar> > 0.8 then map (\<lambda>_. pi) M' else M')
      in kepler_loop maxiter e tol M' E0)"

text \<open>
  \<open>kepler_E\<close> for a scalar \<open>M\<close>, as \<open>oe_to_rv\<close> calls it. \<open>np.array(M)\<close> is zero-dimensional, so
  the normalised \<open>M\<close> and its copy \<open>E\<close> are numpy scalars: when \<open>|e| > 0.8\<close> the assignment
  \<open>E[mask] = np.pi\<close> raises \<open>TypeError\<close> (a \<open>numpy.float64\<close> supports no item assignment);
  otherwise the same loop runs on the one value.
\<close>

definition kepler_E_scalar :: "real \<Rightarrow> real \<Rightarrow> real \<Rightarrow> nat \<Rightarrow> error + real" where
  "kepler_E_scalar M e tol maxiter =
     (let M' = normalize_M M
      in if \<bar>e\<bar> > 0.8 then Inl TypeError
         else Inr (hd (kepler_loop maxiter e tol [M'] [M'])))"

definition tol_default :: real where
  "tol_default = 1 / 10 ^ 10"

definition maxiter_default :: nat where
  "maxiter_default = 100"

section \<open>Elements to state vectors: \<open>oe_to_rv\<close> and \<open>propagate_orbit\<close>\<close>

text \<open>
  The three rotation matrices and their product \<open>Q_pX = Rz_raan @ Rx_i @ Rz_argp\<close>, written the
  same way in both functions.
\<close>

definition Rz :: "real \<Rightarrow> mat3" where
  "Rz t = ((cos t, - sin t, 0), (sin t, cos t, 0), (0, 0, 1))"

definition Rx :: "real \<Rightarrow> mat3" where
  "Rx t = ((1, 0, 0), (0, cos t, - sin t), (0, sin t, cos t))"

definition Q_pX :: "real \<Rightarrow> real \<Rightarrow> real \<Rightarrow> mat3" where
  "Q_pX raan i argp = matmul (matmul (Rz raan) (Rx i)) (Rz argp)"

text \<open>
  True anomaly \<open>f\<close> and perifocal position \<open>(r cos f, r sin f, 0)\<close> from the eccentric anomaly,
  the lines shared by \<open>oe_to_rv\<close> and \<open>propagate_orbit\<close>.
\<close>

definition true_anomaly :: "real \<Rightarrow> real \<Rightarrow> real" where
  "true_anomaly e E =
     (let cosf = (cos E - e) / (1 - e * cos E);
          sinf = (sqrt (1 - e\<^sup>2) * sin E) / (1 - e * cos E)
      in arctan2 sinf cosf)"

definition r_pf :: "real \<Rightarrow> real \<Rightarrow> real \<Rightarrow> vec3" where
  "r_pf a e E =
     (let f = true_anomaly e E;
          r = a * (1 - e * cos E)
      in (r * cos f, r * sin f, 0))"

definition v_pf :: "real \<Rightarrow> real \<Rightarrow> real \<Rightarrow> vec3" where
  "v_pf a e E =
     (let f = true_anomaly e E;
          h = sqrt (MU_EARTH * a * (1 - e\<^sup>2))
      in (- MU_EARTH / h * sin f, MU_EARTH / h * (e + cos f), 0))"

text \<open>
  \<open>oe_to_rv(a, e, i_deg, raan_deg, argp_deg, M_deg)\<close>, called with Python numbers: the mean
  motion \<open>n\<close> is computed first (and never used), so \<open>a = 0\<close> raises \<open>ZeroDivisionError\<close>.
  The mean anomaly is a scalar, so the solver is entered with a scalar.
\<close>

definition oe_to_rv :: "real \<Rightarrow> real \<Rightarrow> real \<Rightarrow> real \<Rightarrow> real \<Rightarrow> real \<Rightarrow> error + (vec3 \<times> vec3)" where
  "oe_to_rv a e i_deg raan_deg argp_deg M_deg =
     (let i = deg2rad i_deg;
          raan = deg2rad raan_deg;
          argp = deg2rad argp_deg;
          M = deg2rad M_deg
      in if a ^ 3 = 0 then Inl ZeroDivisionError
         else
           raise_or (kepler_E_scalar M e tol_default maxiter_default) (\<lambda>E.
             let Q = Q_pX raan i argp
             in Inr (matvec Q (r_pf a e E), matvec Q (v_pf a e E))))"

text \<open>
  \<open>propagate_orbit(elems, times_s, M0_epoch_time)\<close>. Unpacking \<open>elems\<close> into six names raises
  \<open>ValueError\<close> for any other length; \<open>a = float(a)\<close> is a Python float, so \<open>a = 0\<close> raises
  \<open>ZeroDivisionError\<close> in \<open>MU_EARTH / (a**3)\<close>. \<open>times_s\<close> is a sequence (a list or a
  one-dimensional array, as at every call site); the result has one row per entry of it.
\<close>

definition propagate_orbit :: "real list \<Rightarrow> real list \<Rightarrow> real \<Rightarrow> error + vec3 list" where
  "propagate_orbit elems times_s M0_epoch_time =
     (if length elems \<noteq> 6 then Inl ValueError
      else
        (let a = elems ! 0; e = elems ! 1; i_deg = elems ! 2;
             raan_deg = elems ! 3; argp_deg = elems ! 4; M0_deg = elems ! 5
         in if a ^ 3 = 0 then Inl ZeroDivisionError
            else
              (let n = sqrt (MU_EARTH / a ^ 3);
                   M0 = deg2rad M0_deg;
                   M = map (\<lambda>t. M0 + n * (t - M0_epoch_time)) times_s;
                   M = map normalize_M M;
                   E = kepler_E M e tol_default maxiter_default;
                   i = deg2rad i_deg;
                   raan = deg2rad raan_deg;
                   argp = deg2rad argp_deg;
                   Q = Q_pX raan i argp
               in Inr (map (\<lambda>E. matvec Q (r_pf a e E)) E))))"

section \<open>Frame transforms: \<open>eci_to_ecef\<close> and \<open>ecef_to_latlon\<close>\<close>

text \<open>
  The matrix built in the loop of \<open>eci_to_ecef\<close> for \<open>theta[idx]\<close>.
\<close>

definition Rz_ecef :: "real \<Rightarrow> mat3" where
  "Rz_ecef theta = ((cos theta, sin theta, 0), (- sin theta, cos theta, 0), (0, 0, 1))"

text \<open>
  \<open>eci_to_ecef(r_eci, t_sec, gst0)\<close> for a batch \<open>r_eci\<close> of shape \<open>N x 3\<close> and a sequence
  \<open>t_sec\<close> (a scalar is a sequence of one). A \<open>theta\<close> of size one is broadcast to all
  \<open>N\<close> rows; otherwise row \<open>idx\<close> reads \<open>theta[idx]\<close>, which raises \<open>IndexError\<close> when \<open>theta\<close>
  is shorter than the batch, and extra entries of \<open>theta\<close> are ignored.
\<close>

definition eci_to_ecef :: "vec3 list \<Rightarrow> real list \<Rightarrow> real \<Rightarrow> error + vec3 list" where
  "eci_to_ecef r t_sec gst0 =
     (let theta = map (\<lambda>t. gst0 + OMEGA_EARTH * t) t_sec;
          N = length r;
          theta = (if length theta = 1 then replicate N (hd theta) else theta)
      in if length theta < N then Inl IndexError
         else Inr (map2 (\<lambda>th v. matvec (Rz_ecef th) v) (take N theta) r))"

text \<open>
  \<open>ecef_to_latlon(r_ecef)\<close> for a batch: latitudes, longitudes (degrees) and altitudes (km).
\<close>

definition hypot :: "real \<Rightarrow> real \<Rightarrow> real" where
  "hypot x y = sqrt (x\<^sup>2 + y\<^sup>2)"

definition ecef_to_latlon :: "vec3 list \<Rightarrow> real list \<times> real list \<times> real list" where
  "ecef_to_latlon r =
     (let lon = map (\<lambda>(x, y, z). arctan2 y x) r;
          lat = map (\<lambda>(x, y, z). arctan2 z (hypot x y)) r;
          alt = map (\<lambda>v. norm3 v - 6371.0) r
      in (map rad2deg lat, map rad2deg lon, alt))"

text \<open>
  Two readings of the loop, used to state what it returns: the update of the whole batch
  that one pass of the body performs, and the number of passes made before the loop is left.
\<close>

definition newton_step :: "real \<Rightarrow> real list \<Rightarrow> real list \<Rightarrow> real list" where
  "newton_step e M E = map2 (+) E (map2 (newton_dE e) M E)"

fun kepler_iters :: "nat \<Rightarrow> real \<Rightarrow> real \<Rightarrow> real list \<Rightarrow> real list \<Rightarrow> nat" where
  "kepler_iters 0 e tol M E = 0"
| "kepler_iters (Suc k) e tol M E =
     (let dE = map2 (newton_dE e) M E;
          E' = map2 (+) E dE
      in if list_all (\<lambda>d. \<bar>d\<bar> < tol) dE then 1 else Suc (kepler_iters k e tol M E'))"

text \<open>The initial guess: \<open>E = M.copy()\<close>, overwritten by \<open>np.pi\<close> when \<open>|e| > 0.8\<close>.\<close>

definition kepler_E0 :: "real list \<Rightarrow> real \<Rightarrow> real list" where
  "kepler_E0 M e =
     (if \<bar>e\<bar> > 0.8 then map (\<lambda>_. pi) (map normalize_M M) else map normalize_M M)"

text \<open>
  The residual of Kepler's equation at a returned \<open>E\<close>, against the mean anomaly normalised
  as the solver normalises it, and the test whether the loop is left through \<open>break\<close>
  (every step below \<open>tol\<close>) rather than by exhausting \<open>range(maxiter)\<close>.
\<close>

definition kepler_residual :: "real \<Rightarrow> real \<Rightarrow> real \<Rightarrow> real" where
  "kepler_residual e M E = \<bar>E - e * sin E - normalize_M M\<bar>"

fun kepler_converged :: "nat \<Rightarrow> real \<Rightarrow> real \<Rightarrow> real list \<Rightarrow> real list \<Rightarrow> bool" where
  "kepler_converged 0 e tol M E = False"
| "kepler_converged (Suc k) e tol M E =
     (let dE = map2 (newton_dE e) M E;
          E' = map2 (+) E dE
      in if list_all (\<lambda>d. \<bar>d\<bar> < tol) dE then True else kepler_converged k e tol M E')"

text \<open>The altitude component of the triple returned by \<open>ecef_to_latlon\<close>.\<close>

definition altitudes :: "vec3 list \<Rightarrow> real list" where
  "altitudes r = (case ecef_to_latlon r of (lat, lon, alt) \<Rightarrow> alt)"

section \<open>\<open>OrbitPlot._prepare_propagation\<close> in \<open>orbit.py\<close>\<close>

text \<open>\<open>int(x)\<close> on a float truncates towards zero.\<close>

definition int_trunc :: "real \<Rightarrow> int" where
  "int_trunc x = (if 0 \<le> x then \<lfloor>x\<rfloor> else \<lceil>x\<rceil>)"

text \<open>
  \<open>np.linspace(start, stop, num)\<close>: \<open>num\<close> evenly spaced samples with both ends included;
  a negative \<open>num\<close> raises \<open>ValueError\<close>.
\<close>

definition linspace :: "real \<Rightarrow> real \<Rightarrow> int \<Rightarrow> error + real list" where
  "linspace start stop num =
     (if num < 0 then Inl ValueError
      else if num = 1 then Inr [start]
      else Inr (map (\<lambda>k. start + real k * ((stop - start) / real (nat num - 1))) [0..<nat num]))"

text \<open>
  The fields of an \<open>OrbitPlot\<close> that the method reads or writes: the element set, whether an
  animation timer exists, and the three attributes \<open>_cached_times\<close>, \<open>_cached_r_eci\<close>,
  \<open>_cached_r_ecef\<close> (\<open>None\<close> after construction). The last field is not an attribute of the
  class: it counts the calls of \<open>propagate_orbit\<close> made through the object so far, so that
  ``the samples were computed again'' is a fact about the state.
\<close>

record orbit_plot =
  elems :: "real list"
  animation_timer :: bool
  cached_times :: "real list option"
  cached_r_eci :: "vec3 list option"
  cached_r_ecef :: "vec3 list option"
  propagate_calls :: nat

type_synonym propagation = "real list \<times> vec3 list \<times> vec3 list \<times> real"

text \<open>
  The two branches that choose the time span and the number of samples: the static branch
  (\<open>not animation and revolves is not None\<close>) and the animation branch.
\<close>

definition sampling :: "real \<Rightarrow> bool \<Rightarrow> real option \<Rightarrow> real \<Rightarrow> real \<times> int" where
  "sampling T animation revolves sample_points_per_orbit =
     (if \<not> animation \<and> revolves \<noteq> None
      then (T * the revolves, max 300 (int_trunc (sample_points_per_orbit * the revolves)))
      else (T * (case revolves of Some rv \<Rightarrow> rv | None \<Rightarrow> 2.0),
            int_trunc (sample_points_per_orbit * (case revolves of Some rv \<Rightarrow> rv | None \<Rightarrow> 2.0))))"

text \<open>
  The end of the method: propagate, rotate to the Earth-fixed frame with \<open>gst0 = 0\<close>, assign
  the three cache attributes, return. An exception leaves the attributes as they were.
\<close>

definition propagate_and_cache ::
  "orbit_plot \<Rightarrow> real \<Rightarrow> real list \<Rightarrow> (error + propagation) \<times> orbit_plot" where
  "propagate_and_cache self T times' =
     (let self = self\<lparr>propagate_calls := Suc (propagate_calls self)\<rparr> in
      case propagate_orbit (elems self) times' 0 of
        Inl err \<Rightarrow> (Inl err, self)
      | Inr r_eci \<Rightarrow>
          (case eci_to_ecef r_eci times' 0 of
             Inl err \<Rightarrow> (Inl err, self)
           | Inr r_ecef \<Rightarrow>
               (Inr (times', r_eci, r_ecef, T),
                self\<lparr>cached_times := Some times',
                     cached_r_eci := Some r_eci,
                     cached_r_ecef := Some r_ecef\<rparr>)))"

text \<open>
  \<open>_prepare_propagation(self, animation, revolves, sample_points_per_orbit, orbit_time_scale)\<close>.
  \<open>self.elems[0]\<close> raises \<open>IndexError\<close> on an empty sequence and \<open>math.sqrt\<close> raises
  \<open>ValueError\<close> on a negative argument; the timer is stopped and dropped before anything is
  computed. The method never reads a cache attribute, and \<open>orbit_time_scale\<close> is unused.
\<close>

definition prepare_propagation ::
  "orbit_plot \<Rightarrow> bool \<Rightarrow> real option \<Rightarrow> real \<Rightarrow> real \<Rightarrow> (error + propagation) \<times> orbit_plot" where
  "prepare_propagation self animation revolves sample_points_per_orbit orbit_time_scale =
     (if elems self = [] then (Inl IndexError, self)
      else
        (let a = elems self ! 0 in
         if a ^ 3 / 398600.4418 < 0 then (Inl ValueError, self)
         else
           (let T = 2 * pi * sqrt (a ^ 3 / 398600.4418);
                self = self\<lparr>animation_timer := False\<rparr>;
                (total_time, N) = sampling T animation revolves sample_points_per_orbit
            in case linspace 0 total_time N of
                 Inl err \<Rightarrow> (Inl err, self)
               | Inr times' \<Rightarrow> propagate_and_cache self T times')))"

text \<open>What the method returns for an element set and arguments, on a fresh object.\<close>

definition propagation_samples ::
  "real list \<Rightarrow> bool \<Rightarrow> real option \<Rightarrow> real \<Rightarrow> error + propagation" where
  "propagation_samples el animation revolves sample_points_per_orbit =
     fst (prepare_propagation
            \<lparr>elems = el, animation_timer = False, cached_times = None, cached_r_eci = None,
             cached_r_ecef = None, propagate_calls = 0\<rparr>
            animation revolves sample_points_per_orbit 1)"

text \<open>A freshly constructed \<open>OrbitPlot\<close> for a circular orbit of radius \<open>7000\<close> km.\<close>

definition iss_plot :: orbit_plot where
  "iss_plot = \<lparr>elems = [7000, 0, 0, 0, 0, 0], animation_timer = False,
               cached_times = None, cached_r_eci = None, cached_r_ecef = None,
               propagate_calls = 0\<rparr>"

section \<open>The TLE parser \<open>tle_to_kepler6\<close>\<close>

text \<open>
  Lines are strings of one-byte characters (a TLE is ASCII). A value parsed by \<open>float()\<close> is
  a real number or one of the three special floats that the literals \<open>inf\<close>, \<open>-inf\<close> and \<open>nan\<close>
  denote; a literal is given its exact decimal value. The semi-major axis is a Python
  number: a float or, when the mean motion is negative, the complex number that Python
  returns for a negative float raised to a fractional power.
\<close>

datatype pyfloat = Finite real | PosInf | NegInf | NaN

datatype pynumber = PyFloat pyfloat | PyComplex complex

text \<open>
  \<open>str.strip()\<close> removes the characters for which \<open>str.isspace()\<close> holds; \<open>int()\<close> and
  \<open>float()\<close> skip a smaller set around a literal (not the separators \<open>0x1c\<close> to \<open>0x1f\<close>).
  \<open>slice i j s\<close> is \<open>s[i:j]\<close>: it never raises and is shorter than \<open>j - i\<close>, possibly empty,
  on a short line.
\<close>

definition is_space :: "char \<Rightarrow> bool" where
  "is_space c = (of_char c \<in> {9, 10, 11, 12, 13, 28, 29, 30, 31, 32, 133, 160 :: nat})"

definition strip :: "string \<Rightarrow> string" where
  "strip s = rev (dropWhile is_space (rev (dropWhile is_space s)))"

definition slice :: "nat \<Rightarrow> nat \<Rightarrow> string \<Rightarrow> string" where
  "slice i j s = drop i (take j s)"

definition is_num_space :: "char \<Rightarrow> bool" where
  "is_num_space c = (of_char c \<in> {9, 10, 11, 12, 13, 32, 133, 160 :: nat})"

definition num_strip :: "string \<Rightarrow> string" where
  "num_strip s = rev (dropWhile is_num_space (rev (dropWhile is_num_space s)))"

definition is_digit :: "char \<Rightarrow> bool" where
  "is_digit c = (48 \<le> (of_char c :: nat) \<and> (of_char c :: nat) \<le> 57)"

definition digits_val :: "string \<Rightarrow> nat" where
  "digits_val ds = foldl (\<lambda>acc c. 10 * acc + (of_char c - 48)) 0 ds"

text \<open>
  Underscores in a numeric literal: each must have a digit before it and a digit after it.
  \<open>prev\<close> is the previous character, initially NUL.
\<close>

fun underscores_ok :: "char \<Rightarrow> string \<Rightarrow> bool" where
  "underscores_ok prev [] = (prev \<noteq> CHR ''_'')"
| "underscores_ok prev (c # cs) =
     (if c = CHR ''_'' then is_digit prev \<and> underscores_ok c cs
      else (prev = CHR ''_'' \<longrightarrow> is_digit c) \<and> underscores_ok c cs)"

definition split_sign :: "string \<Rightarrow> int \<times> string" where
  "split_sign s =
     (case s of
        [] \<Rightarrow> (1, [])
      | c # r \<Rightarrow> if c = CHR ''+'' then (1, r) else if c = CHR ''-'' then (- 1, r) else (1, s))"

definition lower :: "char \<Rightarrow> char" where
  "lower c = (if 65 \<le> (of_char c :: nat) \<and> (of_char c :: nat) \<le> 90
              then char_of (of_char c + 32 :: nat) else c)"

definition pow10 :: "int \<Rightarrow> real" where
  "pow10 k = (if 0 \<le> k then 10 ^ nat k else 1 / 10 ^ nat (- k))"

text \<open>
  \<open>int(s)\<close> for a string, base ten: optional white space, an optional sign, digits that
  single underscores may separate. Anything else raises \<open>ValueError\<close>.
\<close>

definition py_int :: "string \<Rightarrow> error + int" where
  "py_int s =
     (let (sgn, body) = split_sign (num_strip s);
          ds = filter (\<lambda>c. c \<noteq> CHR ''_'') body
      in if ds \<noteq> [] \<and> underscores_ok (CHR 0x00) body \<and> list_all is_digit ds
         then Inr (sgn * int (digits_val ds))
         else Inl ValueError)"

text \<open>
  \<open>float(s)\<close> for a string: optional white space, an optional sign, then \<open>inf\<close>, \<open>infinity\<close>
  or \<open>nan\<close> in any case, or a decimal literal: digits with an optional point (at least one
  digit in all) and an optional exponent \<open>e\<close> or \<open>E\<close> with its own sign and at least one
  digit. Anything else raises \<open>ValueError\<close>.
\<close>

definition py_float :: "string \<Rightarrow> error + pyfloat" where
  "py_float s =
     (let s = num_strip s in
      if \<not> underscores_ok (CHR 0x00) s then Inl ValueError
      else
        (let (sgn, body) = split_sign (filter (\<lambda>c. c \<noteq> CHR ''_'') s);
             word = map lower body
         in if word = ''inf'' \<or> word = ''infinity'' then Inr (if sgn = 1 then PosInf else NegInf)
            else if word = ''nan'' then Inr NaN
            else
              (let ip = takeWhile is_digit body;
                   r1 = dropWhile is_digit body;
                   (fp, r2) = (case r1 of
                                 [] \<Rightarrow> ([], [])
                               | c # r \<Rightarrow> if c = CHR ''.''
                                          then (takeWhile is_digit r, dropWhile is_digit r)
                                          else ([], r1));
                   mant = real_of_int sgn * real (digits_val (ip @ fp))
               in if ip = [] \<and> fp = [] then Inl ValueError
                  else
                    (case r2 of
                       [] \<Rightarrow> Inr (Finite (mant * pow10 (- int (length fp))))
                     | c # r3 \<Rightarrow>
                         if c = CHR ''e'' \<or> c = CHR ''E''
                         then (let (esgn, ed) = split_sign r3
                               in if ed \<noteq> [] \<and> list_all is_digit ed
                                  then Inr (Finite (mant *
                                         pow10 (esgn * int (digits_val ed) - int (length fp))))
                                  else Inl ValueError)
                         else Inl ValueError))))"

text \<open>
  The epoch: \<open>datetime(year, 1, 1, tzinfo=utc) + timedelta(days=day_of_year - 1.0)\<close> and its
  \<open>timestamp()\<close>. \<open>timedelta\<close> rounds to whole microseconds, half to even; it raises
  \<open>ValueError\<close> on \<open>nan\<close> and \<open>OverflowError\<close> on an infinity, and the sum raises
  \<open>OverflowError\<close> when it leaves the years 1 to 9999. \<open>days_before_year\<close> counts the days
  of the proleptic Gregorian calendar before 1 January of the year; 719162 of them precede
  1970 and 3652059 precede the year 10000.
\<close>

definition round_half_even :: "real \<Rightarrow> int" where
  "round_half_even x =
     (let f = \<lfloor>x\<rfloor>; d = x - of_int f
      in if d < 1 / 2 then f else if 1 / 2 < d then f + 1 else if even f then f else f + 1)"

definition days_before_year :: "int \<Rightarrow> int" where
  "days_before_year year =
     (let y = year - 1 in y * 365 + y div 4 - y div 100 + y div 400)"

definition epoch_timestamp :: "int \<Rightarrow> pyfloat \<Rightarrow> error + real" where
  "epoch_timestamp year day_of_year =
     (if year < 1 \<or> 9999 < year then Inl ValueError
      else
        (case day_of_year of
           NaN \<Rightarrow> Inl ValueError
         | PosInf \<Rightarrow> Inl OverflowError
         | NegInf \<Rightarrow> Inl OverflowError
         | Finite d \<Rightarrow>
             (let us = days_before_year year * 86400000000
                         + round_half_even ((d - 1.0) * 86400000000)
              in if us < 0 \<or> 3652059 * 86400000000 \<le> us then Inl OverflowError
                 else Inr (real_of_int (us - 719162 * 86400000000) / 1000000))))"

text \<open>
  The last three lines of the function: \<open>n_rad_s = 2.0 * math.pi * n_rev_per_day / 86400.0\<close>
  and \<open>a_km = (MU_EARTH ** (1.0/3.0)) / (n_rad_s ** (2.0/3.0))\<close>. A zero mean motion divides
  by zero; an infinite one gives \<open>a_km = 0.0\<close>; a negative one gives a complex number.
\<close>

definition semi_major_axis :: "pyfloat \<Rightarrow> error + pynumber" where
  "semi_major_axis n_rev_per_day =
     (case n_rev_per_day of
        NaN \<Rightarrow> Inr (PyFloat NaN)
      | PosInf \<Rightarrow> Inr (PyFloat (Finite 0))
      | NegInf \<Rightarrow> Inr (PyFloat (Finite 0))
      | Finite n \<Rightarrow>
          (let n_rad_s = 2.0 * pi * n / 86400.0
           in if n_rad_s = 0 then Inl ZeroDivisionError
              else if n_rad_s < 0
              then Inr (PyComplex (complex_of_real (MU_EARTH powr (1.0 / 3.0))
                          / (complex_of_real (\<bar>n_rad_s\<bar> powr (2.0 / 3.0)) * cis (pi * (2.0 / 3.0)))))
              else Inr (PyFloat (Finite (MU_EARTH powr (1.0 / 3.0) / n_rad_s powr (2.0 / 3.0))))))"

text \<open>
  The returned tuple \<open>(a_km, e, i_deg, raan_deg, argp_deg, M0_deg, epoch_time_s)\<close>; the
  statements of the function run in order and the first exception ends it.
\<close>

type_synonym kepler6 = "pynumber \<times> pyfloat \<times> pyfloat \<times> pyfloat \<times> pyfloat \<times> pyfloat \<times> real"

definition tle_to_kepler6 :: "string \<Rightarrow> string \<Rightarrow> error + kepler6" where
  "tle_to_kepler6 line1 line2 =
     (let epoch_str = strip (slice 18 32 line1) in
      raise_or (py_int (take 2 epoch_str)) (\<lambda>yy.
      raise_or (py_float (drop 2 epoch_str)) (\<lambda>day_of_year.
      let year = (if yy < 57 then 2000 + yy else 1900 + yy) in
      raise_or (epoch_timestamp year day_of_year) (\<lambda>epoch_time_s.
      raise_or (py_float (slice 8 16 line2)) (\<lambda>i_deg.
      raise_or (py_float (slice 17 25 line2)) (\<lambda>raan_deg.
      raise_or (py_float (''0.'' @ strip (slice 26 33 line2))) (\<lambda>e.
      raise_or (py_float (slice 34 42 line2)) (\<lambda>argp_deg.
      raise_or (py_float (slice 43 51 line2)) (\<lambda>M0_deg.
      raise_or (py_float (slice 52 63 line2)) (\<lambda>n_rev_per_day.
      raise_or (semi_major_axis n_rev_per_day) (\<lambda>a_km.
        Inr (a_km, e, i_deg, raan_deg, argp_deg, M0_deg, epoch_time_s))))))))))))"

text \<open>
  The ISS lines of \<open>quick-start.py\<close>, and variants of them: both lines cut short of the
  field layout but still numeric, line 2 cut inside a field, and line 2 with the
  eccentricity field \<open>1e1\<close>.
\<close>

definition L1 :: string where
  "L1 = ''1 25544U 98067A   25229.18034946  .00009619  00000-0  17645-3 0  9996''"

definition L2 :: string where
  "L2 = ''2 25544  51.6356   4.7550 0003499 229.5075 130.5609 15.49975761524621''"

definition L1_short :: string where
  "L1_short = ''1 25544U 98067A   251''"

definition L2_short :: string where
  "L2_short = ''2 25544  51.6356   4.7550 0003499 229.5075 130.5609 15''"

definition L2_cut :: string where
  "L2_cut = ''2 25544  51.6356   4.7550 0003499 229.50''"


chapter \<open>Verified properties\<close>

section \<open>The Kepler solver returns\<close>

lemma kepler_loop_Suc:
  "kepler_loop (Suc k) e tol M E =
     (if list_all (\<lambda>d. \<bar>d\<bar> < tol) (map2 (newton_dE e) M E) then newton_step e M E
      else kepler_loop k e tol M (newton_step e M E))"
  by (simp add: newton_step_def Let_def)

lemma kepler_iters_Suc:
  "kepler_iters (Suc k) e tol M E =
     (if list_all (\<lambda>d. \<bar>d\<bar> < tol) (map2 (newton_dE e) M E) then 1
      else Suc (kepler_iters k e tol M (newton_step e M E)))"
  by (simp add: newton_step_def Let_def)

lemma kepler_iters_le: "kepler_iters k e tol M E \<le> k"
  by (induction k arbitrary: E) (auto simp: Let_def)

lemma kepler_loop_funpow:
  "kepler_loop k e tol M E = (newton_step e M ^^ kepler_iters k e tol M E) E"
proof (induction k arbitrary: E)
  case 0
  show ?case by simp
next
  case (Suc k)
  show ?case
    by (simp add: kepler_loop_Suc kepler_iters_Suc Suc funpow_swap1
          del: kepler_loop.simps kepler_iters.simps)
qed

lemma length_newton_step: "length M = length E \<Longrightarrow> length (newton_step e M E) = length E"
  by (simp add: newton_step_def)

lemma length_kepler_loop: "length M = length E \<Longrightarrow> length (kepler_loop k e tol M E) = length E"
  by (induction k arbitrary: E) (auto simp: Let_def)

lemma length_kepler_E: "length (kepler_E M e tol maxiter) = length M"
  by (simp add: kepler_E_def Let_def length_kepler_loop)

lemma kepler_denominator_pos:
  assumes "0 \<le> (e::real)" "e < 1"
  shows "0 < 1 - e * cos E"
proof -
  have "e * cos E \<le> e * 1"
    by (rule mult_left_mono [OF cos_le_one assms(1)])
  then show ?thesis using assms(2) by simp
qed

text \<open>
  Claim C7. For a batch of mean anomalies and an eccentricity with \<open>0 \<le> e < 1\<close>, the solver
  returns after at most \<open>maxiter\<close> Newton updates: its result is the initial guess updated
  \<open>kepler_iters\<close> times, that number is at most \<open>maxiter\<close>, the result has one entry per input,
  and no update divides by zero. Reaching the cap is not an error: the iterate reached is
  what is returned.
\<close>

theorem kepler_E_returns:
  assumes "0 \<le> e" and "e < 1"
  shows "kepler_iters maxiter e tol (map normalize_M M) (kepler_E0 M e) \<le> maxiter
       \<and> kepler_E M e tol maxiter =
           (newton_step e (map normalize_M M)
              ^^ kepler_iters maxiter e tol (map normalize_M M) (kepler_E0 M e)) (kepler_E0 M e)
       \<and> length (kepler_E M e tol maxiter) = length M
       \<and> (\<forall>E. 1 - e * cos E \<noteq> 0)"
proof -
  have "\<forall>E. 1 - e * cos E \<noteq> 0"
    using kepler_denominator_pos [OF assms] by (metis less_irrefl)
  then show ?thesis
    using length_kepler_E [of M e tol maxiter]
    by (simp add: kepler_iters_le kepler_E_def kepler_E0_def Let_def kepler_loop_funpow)
qed

lemma newton_dE_zero: "newton_dE 0 M M = 0"
  by (simp add: newton_dE_def)

theorem kepler_E_returns_witness:
  "(0::real) \<le> 0 \<and> (0::real) < 1
   \<and> kepler_iters 100 0 tol_default (map normalize_M [0]) (kepler_E0 [0] 0) \<le> 100
   \<and> length (kepler_E [0] 0 tol_default 100) = length [0::real]"
proof -
  have h: "(0::real) \<le> 0" "(0::real) < 1" by simp_all
  from kepler_E_returns [OF h, of 100 tol_default "[0]"] h show ?thesis by blast
qed

section \<open>Accuracy of the Kepler solver\<close>

lemma sin_diff_abs_le: "\<bar>sin x - sin y\<bar> \<le> \<bar>x - y\<bar>" for x y :: real
proof -
  have "\<bar>sin x - sin y\<bar> = 2 * \<bar>sin ((x - y) / 2)\<bar> * \<bar>cos ((x + y) / 2)\<bar>"
    by (simp add: sin_diff_sin abs_mult)
  also have "\<dots> \<le> 2 * \<bar>(x - y) / 2\<bar> * 1"
    by (intro mult_mono mult_left_mono abs_sin_x_le_abs_x abs_cos_le_one) auto
  finally show ?thesis by simp
qed

lemma newton_update_residual:
  fixes e :: real
  assumes e: "0 \<le> e" "e < 1" and d: "\<bar>newton_dE e M E\<bar> < tol"
  shows "\<bar>(E + newton_dE e M E) - e * sin (E + newton_dE e M E) - M\<bar> \<le> 2 * e * tol"
proof -
  define d where "d = newton_dE e M E"
  have pos: "0 < 1 - e * cos E" by (rule kepler_denominator_pos [OF e])
  have "d * (1 - e * cos E) = - (E - e * sin E - M)"
    using pos by (simp add: d_def newton_dE_def)
  then have eq: "(E + d) - e * sin (E + d) - M = e * (d * cos E) - e * (sin (E + d) - sin E)"
    by (simp add: algebra_simps)
  have 1: "\<bar>d * cos E\<bar> \<le> \<bar>d\<bar>"
    using abs_cos_le_one [of E] by (simp add: abs_mult mult_left_le)
  have 2: "\<bar>sin (E + d) - sin E\<bar> \<le> \<bar>d\<bar>"
    using sin_diff_abs_le [of "E + d" E] by simp
  have "\<bar>e * (d * cos E) - e * (sin (E + d) - sin E)\<bar> \<le> e * \<bar>d * cos E\<bar> + e * \<bar>sin (E + d) - sin E\<bar>"
    using e(1) by (metis abs_mult abs_of_nonneg abs_triangle_ineq4)
  also have "\<dots> \<le> e * \<bar>d\<bar> + e * \<bar>d\<bar>"
    using 1 2 e(1) by (intro add_mono mult_left_mono) auto
  also have "\<dots> \<le> 2 * e * tol"
    using d e(1) unfolding d_def [symmetric] by (simp add: mult_left_mono)
  finally have "\<bar>(E + d) - e * sin (E + d) - M\<bar> \<le> 2 * e * tol"
    unfolding eq .
  then show ?thesis unfolding d_def .
qed

lemma kepler_loop_converged_residual:
  fixes e :: real
  assumes e: "0 \<le> e" "e < 1"
  shows "kepler_converged k e tol M E \<Longrightarrow> length M = length E \<Longrightarrow> i < length E \<Longrightarrow>
         \<bar>kepler_loop k e tol M E ! i - e * sin (kepler_loop k e tol M E ! i) - M ! i\<bar> \<le> 2 * e * tol"
proof (induction k arbitrary: E)
  case 0
  then show ?case by simp
next
  case (Suc k)
  show ?case
  proof (cases "list_all (\<lambda>d. \<bar>d\<bar> < tol) (map2 (newton_dE e) M E)")
    case True
    then have "\<bar>newton_dE e (M ! i) (E ! i)\<bar> < tol"
      using Suc.prems(2,3) by (auto simp: list_all_length)
    from newton_update_residual [OF e this] show ?thesis
      using True Suc.prems(2,3) by (simp add: Let_def)
  next
    case False
    then have "kepler_converged k e tol M (map2 (+) E (map2 (newton_dE e) M E))"
      using Suc.prems(1) by (simp add: Let_def)
    from Suc.IH [OF this] show ?thesis
      using False Suc.prems(2,3) by (simp add: Let_def)
  qed
qed

text \<open>
  A run that leaves the loop through its tolerance test returns an accurate root: for
  \<open>0 \<le> e \<le> 0.99\<close>, the default tolerance and the default cap, every returned \<open>E\<close> then
  satisfies \<open>|E - e sin E - M| < 1e-8\<close> for the normalised \<open>M\<close> (the residual is at most
  \<open>2 e tol\<close>).
\<close>

lemma kepler_E_converged_residual:
  assumes "0 \<le> e" and "e \<le> 0.99"
    and "kepler_converged maxiter_default e tol_default (map normalize_M M) (kepler_E0 M e)"
    and "i < length M"
  shows "kepler_residual e (M ! i) (kepler_E M e tol_default maxiter_default ! i) < 1 / 10 ^ 8"
proof -
  have e1: "e < 1" using assms(2) by simp
  have len: "length (map normalize_M M) = length (kepler_E0 M e)"
    by (simp add: kepler_E0_def)
  have i: "i < length (kepler_E0 M e)" using assms(4) by (simp add: kepler_E0_def)
  have E: "kepler_E M e tol_default maxiter_default =
           kepler_loop maxiter_default e tol_default (map normalize_M M) (kepler_E0 M e)"
    by (simp add: kepler_E_def kepler_E0_def Let_def)
  have "kepler_residual e (M ! i) (kepler_E M e tol_default maxiter_default ! i) \<le> 2 * e * tol_default"
    using kepler_loop_converged_residual [OF assms(1) e1 assms(3) len i] assms(4)
    by (simp add: E kepler_residual_def)
  also have "\<dots> < 1 / 10 ^ 8"
    using assms(1,2) by (simp add: tol_default_def)
  finally show ?thesis .
qed

section \<open>Rotations preserve the norm\<close>

lemma matvec_matmul: "matvec (matmul A B) v = matvec A (matvec B v)"
  by (simp add: matvec_def matmul_def algebra_simps split: prod.splits)

lemma rot2_norm: "(c * x - s * y)\<^sup>2 + (s * x + c * y)\<^sup>2 = (s\<^sup>2 + c\<^sup>2) * (x\<^sup>2 + y\<^sup>2)" for c s x y :: real
  by (simp add: power2_eq_square algebra_simps)

lemma rot2_norm': "(c * x + s * y)\<^sup>2 + (c * y - s * x)\<^sup>2 = (s\<^sup>2 + c\<^sup>2) * (x\<^sup>2 + y\<^sup>2)" for c s x y :: real
  by (simp add: power2_eq_square algebra_simps)

lemma norm3_Rz: "norm3 (matvec (Rz t) v) = norm3 v"
proof (cases v)
  case (fields x y z)
  have "(cos t * x - sin t * y)\<^sup>2 + (sin t * x + cos t * y)\<^sup>2 = x\<^sup>2 + y\<^sup>2"
    by (simp add: rot2_norm)
  then show ?thesis
    by (simp add: fields norm3_def matvec_def Rz_def)
qed

lemma norm3_Rx: "norm3 (matvec (Rx t) v) = norm3 v"
proof (cases v)
  case (fields x y z)
  have "(cos t * y - sin t * z)\<^sup>2 + (sin t * y + cos t * z)\<^sup>2 = y\<^sup>2 + z\<^sup>2"
    by (simp add: rot2_norm)
  then show ?thesis
    by (simp add: fields norm3_def matvec_def Rx_def add.assoc)
qed

lemma norm3_Rz_ecef: "norm3 (matvec (Rz_ecef t) v) = norm3 v"
proof (cases v)
  case (fields x y z)
  have "(cos t * x + sin t * y)\<^sup>2 + (cos t * y - sin t * x)\<^sup>2 = x\<^sup>2 + y\<^sup>2"
    by (simp add: rot2_norm')
  then show ?thesis
    by (simp add: fields norm3_def matvec_def Rz_ecef_def)
qed

lemma norm3_Q_pX: "norm3 (matvec (Q_pX raan i argp) v) = norm3 v"
  by (simp add: Q_pX_def matvec_matmul norm3_Rz norm3_Rx)

lemma norm3_r_pf_circular: "norm3 (r_pf a 0 E) = \<bar>a\<bar>"
proof -
  have "(a * cos f)\<^sup>2 + (a * sin f)\<^sup>2 = a\<^sup>2" for f :: real
  proof -
    have "(a * cos f)\<^sup>2 + (a * sin f)\<^sup>2 = a\<^sup>2 * ((cos f)\<^sup>2 + (sin f)\<^sup>2)"
      unfolding power_mult_distrib distrib_left ..
    then show ?thesis by simp
  qed
  then show ?thesis
    by (simp add: r_pf_def norm3_def Let_def)
qed

text \<open>
  Claim C8. For a circular orbit (\<open>e = 0\<close>, \<open>a > 0\<close>) and any sequence of time offsets,
  \<open>propagate_orbit\<close> returns one position per offset and every returned position has
  Euclidean norm \<open>a\<close>.
\<close>

theorem propagate_orbit_circular_radius:
  assumes "0 < a"
  shows "\<exists>rs. propagate_orbit [a, 0, i_deg, raan_deg, argp_deg, M0_deg] times_s M0_epoch_time = Inr rs
            \<and> length rs = length times_s
            \<and> (\<forall>r \<in> set rs. norm3 r = a)"
  using assms
  by (auto simp: propagate_orbit_def Let_def length_kepler_E norm3_Q_pX norm3_r_pf_circular)


theorem propagate_orbit_circular_radius_witness:
  "(0::real) < 7000
   \<and> (\<exists>rs. propagate_orbit [7000, 0, 51.6, 4.7, 229.5, 130.5] [0, 60, 120] 0 = Inr rs
          \<and> length rs = 3 \<and> (\<forall>r \<in> set rs. norm3 r = 7000))"
  using propagate_orbit_circular_radius [of 7000 "51.6" "4.7" "229.5" "130.5" "[0, 60, 120]" 0]
  by (simp add: eval_nat_numeral)

section \<open>Propagation at the epoch\<close>

lemma pymod_bounds:
  assumes "0 < y"
  shows "0 \<le> pymod x y" and "pymod x y < y"
proof -
  have 1: "of_int \<lfloor>x / y\<rfloor> \<le> x / y" by (rule of_int_floor_le)
  have 2: "x / y < of_int \<lfloor>x / y\<rfloor> + 1" by linarith
  have "y * of_int \<lfloor>x / y\<rfloor> \<le> y * (x / y)"
    using 1 assms by (intro mult_left_mono) auto
  then have "y * of_int \<lfloor>x / y\<rfloor> \<le> x"
    using assms by simp
  then show "0 \<le> pymod x y" by (simp add: pymod_def)
  have "y * (x / y) < y * (of_int \<lfloor>x / y\<rfloor> + 1)"
    using 2 assms by (intro mult_strict_left_mono) auto
  then have "x < y * (of_int \<lfloor>x / y\<rfloor> + 1)"
    using assms by simp
  then show "pymod x y < y" by (simp add: pymod_def algebra_simps)
qed

lemma pymod_small:
  assumes "0 \<le> x" "x < y"
  shows "pymod x y = x"
proof -
  have "0 < y" using assms by simp
  then have "0 \<le> x / y" "x / y < 1" using assms by simp_all
  then have "\<lfloor>x / y\<rfloor> = 0" by (simp add: floor_eq_iff)
  then show ?thesis by (simp add: pymod_def)
qed

lemma normalize_M_idem: "normalize_M (normalize_M M) = normalize_M M"
  using pymod_bounds [of "2 * pi" "M + pi"]
  by (simp add: normalize_M_def pymod_small)

lemma normalize_M_range: "- pi \<le> normalize_M M" "normalize_M M < pi"
  using pymod_bounds [of "2 * pi" "M + pi"] by (simp_all add: normalize_M_def)

lemma kepler_E_normalized:
  "kepler_E (map normalize_M M) e tol maxiter = kepler_E M e tol maxiter"
  by (simp add: kepler_E_def normalize_M_idem o_def)

lemma singleton_hd: "length xs = 1 \<Longrightarrow> xs = [hd xs]"
  by (cases xs) auto

lemma kepler_E_scalar_batch:
  assumes "\<bar>e\<bar> \<le> 0.8"
  shows "kepler_E_scalar M e tol maxiter = Inr (hd (kepler_E [M] e tol maxiter))"
  using assms by (simp add: kepler_E_scalar_def kepler_E_def Let_def)

lemma kepler_E_scalar_high_eccentricity:
  "0.8 < \<bar>e\<bar> \<Longrightarrow> kepler_E_scalar M e tol maxiter = Inl TypeError"
  by (simp add: kepler_E_scalar_def Let_def)

lemma propagate_orbit_epoch_low_eccentricity:
  assumes "a \<noteq> 0" and "\<bar>e\<bar> \<le> 0.8"
  shows "\<exists>r v. oe_to_rv a e i_deg raan_deg argp_deg M0_deg = Inr (r, v)
           \<and> propagate_orbit [a, e, i_deg, raan_deg, argp_deg, M0_deg] [0] 0 = Inr [r]"
proof -
  let ?E = "kepler_E [deg2rad M0_deg] e tol_default maxiter_default"
  let ?Q = "Q_pX (deg2rad raan_deg) (deg2rad i_deg) (deg2rad argp_deg)"
  have "length ?E = 1" by (simp add: length_kepler_E)
  then have E: "?E = [hd ?E]" by (rule singleton_hd)
  have n: "kepler_E [normalize_M (deg2rad M0_deg)] e tol_default maxiter_default = ?E"
    using kepler_E_normalized [of "[deg2rad M0_deg]"] by simp
  have m: "map (\<lambda>E. matvec ?Q (r_pf a e E)) ?E = [matvec ?Q (r_pf a e (hd ?E))]"
    by (subst E) simp
  have "oe_to_rv a e i_deg raan_deg argp_deg M0_deg
          = Inr (matvec ?Q (r_pf a e (hd ?E)), matvec ?Q (v_pf a e (hd ?E)))"
    using assms by (simp add: oe_to_rv_def Let_def kepler_E_scalar_batch raise_or_def)
  moreover have "propagate_orbit [a, e, i_deg, raan_deg, argp_deg, M0_deg] [0] 0
          = Inr [matvec ?Q (r_pf a e (hd ?E))]"
    using assms(1) m by (simp add: propagate_orbit_def Let_def n)
  ultimately show ?thesis by blast
qed

lemma oe_to_rv_high_eccentricity:
  assumes "a \<noteq> 0" and "0.8 < \<bar>e\<bar>"
  shows "oe_to_rv a e i_deg raan_deg argp_deg M_deg = Inl TypeError"
  using assms by (simp add: oe_to_rv_def Let_def kepler_E_scalar_high_eccentricity raise_or_def)

lemma propagate_orbit_returns_row:
  assumes "a \<noteq> 0"
  shows "\<exists>r. propagate_orbit [a, e, i_deg, raan_deg, argp_deg, M0_deg] [0] 0 = Inr [r]"
proof -
  let ?E = "kepler_E [normalize_M (deg2rad M0_deg)] e tol_default maxiter_default"
  have "length ?E = 1" by (simp add: length_kepler_E)
  then have "?E = [hd ?E]" by (rule singleton_hd)
  then obtain x where x: "?E = [x]" ..
  have "propagate_orbit [a, e, i_deg, raan_deg, argp_deg, M0_deg] [0] 0
          = Inr [matvec (Q_pX (deg2rad raan_deg) (deg2rad i_deg) (deg2rad argp_deg)) (r_pf a e x)]"
    using assms by (simp add: propagate_orbit_def Let_def x)
  then show ?thesis by blast
qed

text \<open>
  Claim C5. The claim fails on the code at the element set \<open>a = 7000\<close>, \<open>e = 0.9\<close> with all
  angles \<open>0\<close>: \<open>propagate_orbit\<close> with the single time offset \<open>0\<close> returns one position, while
  \<open>oe_to_rv\<close> at the same elements raises \<open>TypeError\<close> from the solver's item assignment and
  returns no position to compare with. (For \<open>\<bar>e\<bar> \<le> 0.8\<close> the two positions are equal, by
  \<open>propagate_orbit_epoch_low_eccentricity\<close>.)
\<close>

theorem oe_to_rv_high_eccentricity_type_error:
  "oe_to_rv 7000 0.9 0 0 0 0 = Inl TypeError
   \<and> (\<exists>r. propagate_orbit [7000, 0.9, 0, 0, 0, 0] [0] 0 = Inr [r])"
proof
  show "oe_to_rv 7000 0.9 0 0 0 0 = Inl TypeError"
    by (rule oe_to_rv_high_eccentricity) simp_all
  show "\<exists>r. propagate_orbit [7000, 0.9, 0, 0, 0, 0] [0] 0 = Inr [r]"
    by (rule propagate_orbit_returns_row) simp
qed

section \<open>The Earth-fixed rotation keeps norm and altitude\<close>

lemma eci_to_ecef_Inr:
  assumes "eci_to_ecef r t_sec gst0 = Inr out"
  shows "length out = length r"
    and "i < length r \<Longrightarrow> norm3 (out ! i) = norm3 (r ! i)"
proof -
  let ?theta0 = "map (\<lambda>t. gst0 + OMEGA_EARTH * t) t_sec"
  let ?theta = "if length ?theta0 = 1 then replicate (length r) (hd ?theta0) else ?theta0"
  have ge: "length r \<le> length ?theta"
    using assms by (auto simp: eci_to_ecef_def Let_def split: if_splits)
  have out: "out = map2 (\<lambda>th v. matvec (Rz_ecef th) v) (take (length r) ?theta) r"
    using assms by (auto simp: eci_to_ecef_def Let_def split: if_splits)
  show len: "length out = length r"
    using ge unfolding out by simp
  show "norm3 (out ! i) = norm3 (r ! i)" if "i < length r"
    using that ge unfolding out by (simp add: norm3_Rz_ecef)
qed

lemma eci_to_ecef_Inl:
  assumes "eci_to_ecef r t_sec gst0 = Inl err"
  shows "err = IndexError \<and> length t_sec \<noteq> 1 \<and> length t_sec < length r"
  using assms by (auto simp: eci_to_ecef_def Let_def split: if_splits)

text \<open>
  Claim C10. Whatever the batch of positions, the time offsets and the reference angle,
  every position returned by \<open>eci_to_ecef\<close> has the norm of the inertial position it comes
  from, so the altitude \<open>ecef_to_latlon\<close> gives for it is that norm minus \<open>6371.0\<close>. The only
  other outcome is the \<open>IndexError\<close> of a time array that is shorter than the batch and not
  of size one.
\<close>

theorem eci_to_ecef_norm_altitude:
  "case eci_to_ecef r t_sec gst0 of
     Inl err \<Rightarrow> err = IndexError \<and> length t_sec \<noteq> 1 \<and> length t_sec < length r
   | Inr out \<Rightarrow>
       length out = length r \<and>
       (\<forall>i < length r. norm3 (out ! i) = norm3 (r ! i)
                     \<and> altitudes out ! i = norm3 (r ! i) - 6371)"
proof (cases "eci_to_ecef r t_sec gst0")
  case (Inl err)
  then show ?thesis using eci_to_ecef_Inl [OF Inl] by simp
next
  case (Inr out)
  have "altitudes out ! i = norm3 (out ! i) - 6371" if "i < length out" for i
    using that by (simp add: altitudes_def ecef_to_latlon_def Let_def)
  then show ?thesis
    using Inr eci_to_ecef_Inr [OF Inr] by simp
qed

theorem eci_to_ecef_norm_altitude_witness:
  "\<exists>out. eci_to_ecef [(7000, 0, 0), (0, 7000, 0)] [0, 60] 0 = Inr out \<and> length out = 2
       \<and> (\<forall>i < 2. altitudes out ! i = 629)"
proof -
  have n: "norm3 (7000, 0, 0) = 7000" "norm3 (0, 7000, 0) = 7000"
    by (simp_all add: norm3_def)
  obtain out where out: "eci_to_ecef [(7000, 0, 0), (0, 7000, 0)] [0, 60] 0 = Inr out"
    by (simp add: eci_to_ecef_def Let_def)
  show ?thesis
    using eci_to_ecef_norm_altitude [of "[0, 60]" "[(7000, 0, 0), (0, 7000, 0)]" 0] n
    by (auto simp: out less_Suc_eq eval_nat_numeral)
qed


section \<open>What \<open>propagate_orbit\<close> returns\<close>

lemma norm3_scale_cs: "norm3 (k * cos f, k * sin f, 0) = \<bar>k\<bar>"
proof -
  have "(k * cos f)\<^sup>2 + (k * sin f)\<^sup>2 = k\<^sup>2 * ((cos f)\<^sup>2 + (sin f)\<^sup>2)"
    unfolding power_mult_distrib distrib_left ..
  then show ?thesis by (simp add: norm3_def)
qed

lemma norm3_r_pf:
  assumes "0 < a" "0 \<le> e" "e < 1"
  shows "norm3 (r_pf a e E) = a * (1 - e * cos E)"
proof -
  have "0 < a * (1 - e * cos E)"
    using assms kepler_denominator_pos [OF assms(2,3), of E] by simp
  then show ?thesis
    by (simp add: r_pf_def Let_def norm3_scale_cs)
qed

text \<open>
  Claim C3, as amended. \<open>propagate_orbit\<close> has no velocity flag: for an element set with
  \<open>a > 0\<close> and \<open>0 \<le> e < 1\<close>, any time offsets and any value of its optional argument
  \<open>M0_epoch_time\<close>, it returns exactly one vector per time offset, and that vector is a
  position: its norm is the orbital radius \<open>a (1 - e cos E)\<close> at the solved eccentric anomaly.
\<close>

theorem propagate_orbit_positions_only:
  assumes "0 < a" and "0 \<le> e" and "e < 1"
  shows "\<exists>rs. propagate_orbit [a, e, i_deg, raan_deg, argp_deg, M0_deg] times_s M0_epoch_time = Inr rs
            \<and> length rs = length times_s
            \<and> (\<forall>j < length times_s.
                  norm3 (rs ! j) =
                    a * (1 - e * cos (kepler_E
                           (map (\<lambda>t. deg2rad M0_deg + sqrt (MU_EARTH / a ^ 3) * (t - M0_epoch_time)) times_s)
                           e tol_default maxiter_default ! j)))"
proof -
  let ?M = "map (\<lambda>t. deg2rad M0_deg + sqrt (MU_EARTH / a ^ 3) * (t - M0_epoch_time)) times_s"
  have "kepler_E (map normalize_M ?M) e tol_default maxiter_default = kepler_E ?M e tol_default maxiter_default"
    by (rule kepler_E_normalized)
  then show ?thesis
    using assms(1)
    by (simp add: propagate_orbit_def Let_def length_kepler_E norm3_Q_pX norm3_r_pf [OF assms] o_def)
qed

theorem propagate_orbit_positions_only_witness:
  "(0::real) < 7000 \<and> (0::real) \<le> 0.5 \<and> (0.5::real) < 1
   \<and> (\<exists>rs. propagate_orbit [7000, 0.5, 0, 0, 0, 0] [0, 60] 0 = Inr rs \<and> length rs = 2)"
  using propagate_orbit_positions_only [of 7000 "0.5" 0 0 0 0 "[0, 60]" 0]
  by (auto simp: eval_nat_numeral)

lemma norm3_scale_sc: "norm3 (- k * sin f, k * cos f, 0) = \<bar>k\<bar>"
proof -
  have "(- k * sin f)\<^sup>2 + (k * cos f)\<^sup>2 = k\<^sup>2 * ((sin f)\<^sup>2 + (cos f)\<^sup>2)"
    unfolding power_mult_distrib distrib_left by simp
  then show ?thesis by (simp add: norm3_def)
qed

lemma norm3_v_pf_circular:
  assumes "0 < a"
  shows "norm3 (v_pf a 0 E) = MU_EARTH / sqrt (MU_EARTH * a)"
proof -
  define k where "k = MU_EARTH / sqrt (MU_EARTH * a)"
  have "0 < MU_EARTH" by (simp add: MU_EARTH_def)
  then have k: "0 < k" using assms by (simp add: k_def)
  have "v_pf a 0 E = (- k * sin (true_anomaly 0 E), k * cos (true_anomaly 0 E), 0)"
    by (simp add: v_pf_def Let_def k_def)
  then have "norm3 (v_pf a 0 E) = \<bar>k\<bar>"
    by (simp only: norm3_scale_sc)
  also have "\<bar>k\<bar> = k" using k by simp
  finally show ?thesis unfolding k_def .
qed

lemma speed_not_radius: "MU_EARTH / sqrt (MU_EARTH * 7000) \<noteq> 7000"
proof
  assume eq: "MU_EARTH / sqrt (MU_EARTH * 7000) = 7000"
  have pos: "0 < MU_EARTH * 7000" by (simp add: MU_EARTH_def)
  then have s: "0 < sqrt (MU_EARTH * 7000)" by simp
  from eq s have "MU_EARTH = 7000 * sqrt (MU_EARTH * 7000)"
    by (simp add: field_simps)
  then have "MU_EARTH\<^sup>2 = 7000\<^sup>2 * (sqrt (MU_EARTH * 7000))\<^sup>2"
    by (metis power_mult_distrib)
  then have "MU_EARTH\<^sup>2 = 7000\<^sup>2 * (MU_EARTH * 7000)"
    using pos by simp
  then show False by (simp add: MU_EARTH_def power2_eq_square)
qed

text \<open>
  Claim C3, as stated, fails. For the circular orbit \<open>a = 7000\<close> and the single offset \<open>0\<close>,
  no value of the optional argument makes \<open>propagate_orbit\<close> return two vectors for that
  offset, or return the velocity that \<open>oe_to_rv\<close> computes for the same elements: the result
  is one vector of norm \<open>7000\<close>, and the speed is \<open>\<mu> / sqrt (7000 \<mu>)\<close>.
\<close>

theorem propagate_orbit_velocity_flag_counterexample:
  "\<not> (\<exists>flag rs r_eci v_eci.
         oe_to_rv 7000 0 0 0 0 0 = Inr (r_eci, v_eci)
       \<and> propagate_orbit [7000, 0, 0, 0, 0, 0] [0] flag = Inr rs
       \<and> (length rs = 2 \<or> v_eci \<in> set rs))"
proof
  assume "\<exists>flag rs r_eci v_eci.
         oe_to_rv 7000 0 0 0 0 0 = Inr (r_eci, v_eci)
       \<and> propagate_orbit [7000, 0, 0, 0, 0, 0] [0] flag = Inr rs
       \<and> (length rs = 2 \<or> v_eci \<in> set rs)"
  then obtain flag rs r_eci v_eci where
    oe: "oe_to_rv 7000 0 0 0 0 0 = Inr (r_eci, v_eci)" and
    pr: "propagate_orbit [7000, 0, 0, 0, 0, 0] [0] flag = Inr rs" and
    d: "length rs = 2 \<or> v_eci \<in> set rs"
    by blast
  have v: "norm3 v_eci = MU_EARTH / sqrt (MU_EARTH * 7000)"
    using oe
    by (auto simp: oe_to_rv_def kepler_E_scalar_def raise_or_def Let_def norm3_Q_pX
          norm3_v_pf_circular)
  have len: "length rs = 1"
    using pr by (auto simp: propagate_orbit_def Let_def length_kepler_E)
  have "\<forall>r \<in> set rs. norm3 r = 7000"
    using pr by (auto simp: propagate_orbit_def Let_def norm3_Q_pX norm3_r_pf_circular)
  with d len v show False
    using speed_not_radius by auto
qed

section \<open>The stored propagation is never reused\<close>

lemma prepare_propagation_Inr:
  assumes "prepare_propagation self animation revolves spo scale = (Inr (ts, r_eci, r_ecef, T), self')"
  shows "self' = self\<lparr>animation_timer := False, propagate_calls := Suc (propagate_calls self),
                       cached_times := Some ts, cached_r_eci := Some r_eci,
                       cached_r_ecef := Some r_ecef\<rparr>"
    and "propagate_orbit (elems self) ts 0 = Inr r_eci"
    and "eci_to_ecef r_eci ts 0 = Inr r_ecef"
  using assms
  by (auto simp: prepare_propagation_def propagate_and_cache_def Let_def
           split: if_splits sum.splits prod.splits)

lemma prepare_propagation_cache_unread:
  "fst (prepare_propagation (self\<lparr>cached_times := c1, cached_r_eci := c2, cached_r_ecef := c3\<rparr>)
          animation revolves spo scale)
   = fst (prepare_propagation self animation revolves spo scale)"
  by (simp add: prepare_propagation_def propagate_and_cache_def Let_def
           split: sum.splits prod.splits)



lemma fst_prepare_propagation:
  "fst (prepare_propagation self animation revolves spo scale)
   = propagation_samples (elems self) animation revolves spo"
  unfolding propagation_samples_def prepare_propagation_def propagate_and_cache_def Let_def
  by (simp split: sum.splits prod.splits)

lemma calls_prepare_propagation:
  assumes "fst (prepare_propagation self animation revolves spo scale) = Inr res"
  shows "propagate_calls (snd (prepare_propagation self animation revolves spo scale))
           = Suc (propagate_calls self)"
proof -
  obtain self' where "prepare_propagation self animation revolves spo scale = (Inr res, self')"
    using assms by (cases "prepare_propagation self animation revolves spo scale") auto
  moreover obtain ts r_eci r_ecef T where "res = (ts, r_eci, r_ecef, T)"
    by (cases res) auto
  ultimately show ?thesis
    using prepare_propagation_Inr(1) [of self animation revolves spo scale ts r_eci r_ecef T self']
    by simp
qed

lemma length_propagate_orbit:
  "propagate_orbit el ts t0 = Inr rs \<Longrightarrow> length rs = length ts"
  by (auto simp: propagate_orbit_def Let_def length_kepler_E split: if_splits)

lemma eci_to_ecef_same_length:
  assumes "length r = length ts"
  shows "\<exists>out. eci_to_ecef r ts gst0 = Inr out"
  using assms by (simp add: eci_to_ecef_def Let_def)

lemma linspace_Inr: "0 \<le> num \<Longrightarrow> \<exists>ts. linspace start stop num = Inr ts"
  by (simp add: linspace_def)

lemma prepare_propagation_succeeds:
  assumes el: "length (elems self) = 6" "0 < elems self ! 0"
    and n: "0 \<le> sample_points_per_orbit" "0 \<le> (case revolves of Some rv \<Rightarrow> rv | None \<Rightarrow> 2)"
  shows "\<exists>res self'. prepare_propagation self animation revolves sample_points_per_orbit orbit_time_scale
                      = (Inr res, self')"
proof -
  define a where "a = elems self ! 0"
  define T where "T = 2 * pi * sqrt (a ^ 3 / 398600.4418)"
  obtain total_time N where sm: "sampling T animation revolves sample_points_per_orbit = (total_time, N)"
    by (cases "sampling T animation revolves sample_points_per_orbit") auto
  have ne: "elems self \<noteq> []" using el(1) by auto
  have a: "0 < a" using el(2) by (simp add: a_def)
  then have a3: "\<not> a ^ 3 / 398600.4418 < 0" by simp
  have "0 \<le> sample_points_per_orbit * (case revolves of Some rv \<Rightarrow> rv | None \<Rightarrow> 2)"
    using n by simp
  then have "0 \<le> int_trunc (sample_points_per_orbit * (case revolves of Some rv \<Rightarrow> rv | None \<Rightarrow> 2))"
    by (simp add: int_trunc_def)
  then have N: "0 \<le> N"
    using sm by (auto simp: sampling_def split: option.splits if_splits)
  obtain ts where ts: "linspace 0 total_time N = Inr ts"
    using linspace_Inr [OF N] by blast
  obtain r_eci where r: "propagate_orbit (elems self) ts 0 = Inr r_eci"
    using el(1) a by (auto simp: propagate_orbit_def Let_def a_def)
  obtain r_ecef where e: "eci_to_ecef r_eci ts 0 = Inr r_ecef"
    using eci_to_ecef_same_length [OF length_propagate_orbit [OF r]] by blast
  show ?thesis
    unfolding prepare_propagation_def Let_def a_def [symmetric] T_def [symmetric]
    using ne a3 ts r e sm
    by (simp add: propagate_and_cache_def Let_def)
qed

text \<open>
  Claim C1, as amended. Every request that returns computes its samples from the current
  element set and arguments by a new call of \<open>propagate_orbit\<close> (and \<open>eci_to_ecef\<close>), whatever
  the stored entry holds, and overwrites the stored entry with them. A repeated request with
  the same element set and arguments therefore returns values equal to the stored ones, and
  it computes them again.
\<close>

theorem prepare_propagation_always_recomputes:
  assumes "prepare_propagation self animation revolves sample_points_per_orbit orbit_time_scale
             = (Inr (ts, r_eci, r_ecef, T), self')"
  shows "propagate_calls self' = Suc (propagate_calls self)
       \<and> propagate_orbit (elems self) ts 0 = Inr r_eci
       \<and> eci_to_ecef r_eci ts 0 = Inr r_ecef
       \<and> cached_times self' = Some ts
       \<and> cached_r_eci self' = Some r_eci
       \<and> cached_r_ecef self' = Some r_ecef
       \<and> fst (prepare_propagation
                 (self\<lparr>cached_times := c1, cached_r_eci := c2, cached_r_ecef := c3\<rparr>)
                 animation revolves sample_points_per_orbit orbit_time_scale)
           = Inr (ts, r_eci, r_ecef, T)
       \<and> fst (prepare_propagation self'
                 animation revolves sample_points_per_orbit orbit_time_scale)
           = Inr (ts, r_eci, r_ecef, T)
       \<and> propagate_calls (snd (prepare_propagation self'
                 animation revolves sample_points_per_orbit orbit_time_scale))
           = Suc (Suc (propagate_calls self))"
proof -
  note facts = prepare_propagation_Inr [OF assms]
  have el: "elems self' = elems self"
    using facts(1) by simp
  have 0: "propagation_samples (elems self) animation revolves sample_points_per_orbit
           = Inr (ts, r_eci, r_ecef, T)"
    using assms fst_prepare_propagation
    by (metis fst_conv)
  have 1: "fst (prepare_propagation
                 (self\<lparr>cached_times := c1, cached_r_eci := c2, cached_r_ecef := c3\<rparr>)
                 animation revolves sample_points_per_orbit orbit_time_scale)
           = Inr (ts, r_eci, r_ecef, T)"
    using 0 by (simp add: fst_prepare_propagation)
  have 2: "fst (prepare_propagation self' animation revolves sample_points_per_orbit orbit_time_scale)
           = Inr (ts, r_eci, r_ecef, T)"
    using 0 by (simp add: fst_prepare_propagation el)
  have 3: "propagate_calls self' = Suc (propagate_calls self)"
    using facts(1) by simp
  have 4: "propagate_calls (snd (prepare_propagation self'
                 animation revolves sample_points_per_orbit orbit_time_scale))
           = Suc (Suc (propagate_calls self))"
    using calls_prepare_propagation [OF 2] 3 by simp
  have 5: "cached_times self' = Some ts" "cached_r_eci self' = Some r_eci"
    "cached_r_ecef self' = Some r_ecef"
    using facts(1) by simp_all
  show ?thesis
    using facts(2,3) 1 2 3 4 5 by blast
qed

theorem prepare_propagation_always_recomputes_witness:
  "\<exists>ts r_eci r_ecef T s1.
       prepare_propagation iss_plot False (Some 1) 2000 1 = (Inr (ts, r_eci, r_ecef, T), s1)
     \<and> propagate_calls s1 = 1
     \<and> cached_times s1 = Some ts
     \<and> fst (prepare_propagation s1 False (Some 1) 2000 1) = Inr (ts, r_eci, r_ecef, T)
     \<and> propagate_calls (snd (prepare_propagation s1 False (Some 1) 2000 1)) = 2"
proof -
  obtain res s1 where "prepare_propagation iss_plot False (Some 1) 2000 1 = (Inr res, s1)"
    using prepare_propagation_succeeds [of iss_plot 2000 "Some 1" False 1]
    by (auto simp: iss_plot_def)
  then obtain ts r_eci r_ecef T where
    1: "prepare_propagation iss_plot False (Some 1) 2000 1 = (Inr (ts, r_eci, r_ecef, T), s1)"
    by (cases res) auto
  have c: "propagate_calls iss_plot = 0" by (simp add: iss_plot_def)
  from prepare_propagation_always_recomputes [OF 1] 1 c show ?thesis
    by (simp del: split_paired_Ex)
qed

text \<open>
  Claim C1, as stated, fails. Two successive requests with the same element set, sample
  count and time span both return, with equal results, and \<open>propagate_orbit\<close> has run once
  after the first and twice after the second: the stored samples were not reused.
\<close>

theorem prepare_propagation_cache_counterexample:
  "\<exists>res s1 s2. prepare_propagation iss_plot True None 2000 1 = (Inr res, s1)
            \<and> prepare_propagation s1 True None 2000 1 = (Inr res, s2)
            \<and> propagate_calls s1 = 1 \<and> propagate_calls s2 = 2"
proof -
  obtain res s1 where 1: "prepare_propagation iss_plot True None 2000 1 = (Inr res, s1)"
    using prepare_propagation_succeeds [of iss_plot 2000 None True 1]
    by (auto simp: iss_plot_def)
  obtain ts r_eci r_ecef T where res: "res = (ts, r_eci, r_ecef, T)"
    by (cases res) auto
  note facts = prepare_propagation_Inr [OF 1 [unfolded res]]
  have el: "elems s1 = elems iss_plot" using facts(1) by simp
  have c1: "propagate_calls s1 = 1"
    using facts(1) by (simp add: iss_plot_def)
  have f: "fst (prepare_propagation s1 True None 2000 1) = Inr res"
    using 1 fst_prepare_propagation [of iss_plot True None 2000 1]
    by (simp add: fst_prepare_propagation el)
  obtain s2 where 2: "prepare_propagation s1 True None 2000 1 = (Inr res, s2)"
    using f by (cases "prepare_propagation s1 True None 2000 1") auto
  have "propagate_calls s2 = 2"
    using calls_prepare_propagation [OF f] 2 c1 by simp
  with 1 2 c1 show ?thesis by blast
qed

section \<open>Parsing a two-line element set\<close>

lemma py_int_error: "py_int s = Inl err \<Longrightarrow> err = ValueError"
  by (auto simp: py_int_def Let_def split: prod.splits if_splits)

lemma py_float_error: "py_float s = Inl err \<Longrightarrow> err = ValueError"
  by (auto simp: py_float_def Let_def split: prod.splits if_splits list.splits)

lemma epoch_timestamp_error:
  "epoch_timestamp year d = Inl err \<Longrightarrow> err = ValueError \<or> err = OverflowError"
  by (auto simp: epoch_timestamp_def Let_def split: pyfloat.splits if_splits)

lemma semi_major_axis_error:
  "semi_major_axis n = Inl err \<Longrightarrow> err = ZeroDivisionError"
  by (auto simp: semi_major_axis_def Let_def split: pyfloat.splits if_splits)

lemma raise_or_Inl: "raise_or (Inl err) f = Inl err"
  by (simp add: raise_or_def)

lemma raise_or_Inr: "raise_or (Inr x) f = f x"
  by (simp add: raise_or_def)

lemma raise_or_eq_Inl:
  "raise_or r f = Inl err \<longleftrightarrow> r = Inl err \<or> (\<exists>x. r = Inr x \<and> f x = Inl err)"
  by (cases r) (auto simp: raise_or_def)

lemma raise_or_eq_Inr:
  "raise_or r f = Inr y \<longleftrightarrow> (\<exists>x. r = Inr x \<and> f x = Inr y)"
  by (cases r) (auto simp: raise_or_def)

lemmas py_eval = py_float_def py_int_def num_strip_def is_num_space_def is_digit_def
  split_sign_def lower_def digits_val_def pow10_def Let_def

lemma short_epoch_str: "strip (slice 18 32 L1_short) = ''251''" by code_simp
lemma short_yy: "py_int (take 2 ''251'') = Inr 25" by (simp add: py_eval)
lemma short_day: "py_float (drop 2 ''251'') = Inr (Finite 1)" by (simp add: py_eval)
lemma epoch_2025_1: "epoch_timestamp 2025 (Finite 1) = Inr 1735689600" by code_simp

lemma short_slices:
  "slice 8 16 L2_short = '' 51.6356''"
  "slice 17 25 L2_short = ''  4.7550''"
  "strip (slice 26 33 L2_short) = ''0003499''"
  "slice 34 42 L2_short = ''229.5075''"
  "slice 43 51 L2_short = ''130.5609''"
  "slice 52 63 L2_short = ''15''"
  by code_simp+

lemma field_values:
  "py_float '' 51.6356'' = Inr (Finite 51.6356)"
  "py_float ''  4.7550'' = Inr (Finite 4.7550)"
  "py_float (''0.'' @ ''0003499'') = Inr (Finite 0.0003499)"
  "py_float ''229.5075'' = Inr (Finite 229.5075)"
  "py_float ''130.5609'' = Inr (Finite 130.5609)"
  "py_float ''15'' = Inr (Finite 15)"
  by (simp_all add: py_eval)

lemma semi_major_axis_pos:
  assumes "0 < n"
  shows "semi_major_axis (Finite n) =
           Inr (PyFloat (Finite (MU_EARTH powr (1 / 3) / (2 * pi * n / 86400) powr (2 / 3))))"
    and "0 < MU_EARTH powr (1 / 3) / (2 * pi * n / 86400) powr (2 / 3)"
proof -
  have pos: "0 < 2 * pi * n / 86400" using assms by simp
  have "0 < pi * n" using assms by simp
  then have "\<not> pi * n < 0" by simp
  then show "semi_major_axis (Finite n) =
           Inr (PyFloat (Finite (MU_EARTH powr (1 / 3) / (2 * pi * n / 86400) powr (2 / 3))))"
    using assms by (simp add: semi_major_axis_def Let_def)
  have "0 < MU_EARTH" by (simp add: MU_EARTH_def)
  then have "0 < MU_EARTH powr (1 / 3)" by simp
  moreover have "0 < (2 * pi * n / 86400) powr (2 / 3)"
    using assms by simp
  ultimately show "0 < MU_EARTH powr (1 / 3) / (2 * pi * n / 86400) powr (2 / 3)"
    by (rule divide_pos_pos)
qed

lemma tle_to_kepler6_short:
  "tle_to_kepler6 L1_short L2_short =
       Inr (PyFloat (Finite (MU_EARTH powr (1 / 3) / (2 * pi * 15 / 86400) powr (2 / 3))),
            Finite 0.0003499, Finite 51.6356, Finite 4.7550, Finite 229.5075, Finite 130.5609,
            1735689600)"
  unfolding tle_to_kepler6_def Let_def short_epoch_str short_yy short_day short_slices
    field_values raise_or_Inr
  by (simp add: epoch_2025_1 semi_major_axis_pos(1) raise_or_Inr)

text \<open>
  Claim C4, as stated, fails. Line 1 has 21 characters and line 2 has 54, both shorter than
  the field layout (32 and 63 columns are read), and \<open>tle_to_kepler6\<close> returns an element set:
  the slices of a short line are the remainders \<open>251\<close> and \<open>15\<close>, which are numeric.
\<close>

theorem tle_to_kepler6_short_lines_counterexample:
  "length L1_short < 32 \<and> length L2_short < 63
   \<and> tle_to_kepler6 L1_short L2_short =
       Inr (PyFloat (Finite (MU_EARTH powr (1 / 3) / (2 * pi * 15 / 86400) powr (2 / 3))),
            Finite 0.0003499, Finite 51.6356, Finite 4.7550, Finite 229.5075, Finite 130.5609,
            1735689600)"
proof -
  have "length L1_short < 32 \<and> length L2_short < 63" by code_simp
  then show ?thesis using tle_to_kepler6_short by blast
qed

lemma tle_to_kepler6_needs_fields:
  assumes "tle_to_kepler6 line1 line2 = Inr k \<or> tle_to_kepler6 line1 line2 = Inl ZeroDivisionError"
  shows "py_int (take 2 (strip (slice 18 32 line1))) \<noteq> Inl ValueError
       \<and> py_float (drop 2 (strip (slice 18 32 line1))) \<noteq> Inl ValueError
       \<and> py_float (slice 8 16 line2) \<noteq> Inl ValueError
       \<and> py_float (slice 17 25 line2) \<noteq> Inl ValueError
       \<and> py_float (''0.'' @ strip (slice 26 33 line2)) \<noteq> Inl ValueError
       \<and> py_float (slice 34 42 line2) \<noteq> Inl ValueError
       \<and> py_float (slice 43 51 line2) \<noteq> Inl ValueError
       \<and> py_float (slice 52 63 line2) \<noteq> Inl ValueError"
  using assms unfolding tle_to_kepler6_def Let_def
  by (auto simp: raise_or_eq_Inl raise_or_eq_Inr
           dest: py_int_error py_float_error epoch_timestamp_error)

lemma tle_to_kepler6_errors:
  assumes "tle_to_kepler6 line1 line2 = Inl err"
  shows "err = ValueError \<or> err = OverflowError \<or> err = ZeroDivisionError"
  using assms unfolding tle_to_kepler6_def Let_def
  by (auto simp: raise_or_eq_Inl
           dest: py_int_error py_float_error epoch_timestamp_error semi_major_axis_error)

text \<open>
  Claim C4, as amended. \<open>tle_to_kepler6\<close> returns no element set whenever one of the eight
  numeric fields, as the fixed slices cut it from the lines, is not a numeric literal: it
  raises \<open>ValueError\<close>, or the \<open>OverflowError\<close> of an epoch day out of range when that is met
  first. The length of a line is not checked: a short line fails only through a field that
  the cut leaves empty or not numeric.
\<close>

theorem tle_to_kepler6_unparsable_field:
  assumes "py_int (take 2 (strip (slice 18 32 line1))) = Inl ValueError
         \<or> py_float (drop 2 (strip (slice 18 32 line1))) = Inl ValueError
         \<or> py_float (slice 8 16 line2) = Inl ValueError
         \<or> py_float (slice 17 25 line2) = Inl ValueError
         \<or> py_float (''0.'' @ strip (slice 26 33 line2)) = Inl ValueError
         \<or> py_float (slice 34 42 line2) = Inl ValueError
         \<or> py_float (slice 43 51 line2) = Inl ValueError
         \<or> py_float (slice 52 63 line2) = Inl ValueError"
  shows "tle_to_kepler6 line1 line2 = Inl ValueError
       \<or> tle_to_kepler6 line1 line2 = Inl OverflowError"
proof (cases "tle_to_kepler6 line1 line2")
  case (Inr k)
  then show ?thesis
    using tle_to_kepler6_needs_fields [of line1 line2 k] assms by blast
next
  case (Inl err)
  then have "err \<noteq> ZeroDivisionError"
    using tle_to_kepler6_needs_fields [of line1 line2] assms by blast
  then show ?thesis
    using tle_to_kepler6_errors [OF Inl] Inl by blast
qed

lemma cut_slice: "slice 43 51 L2_cut = []" by code_simp

lemma float_empty: "py_float [] = Inl ValueError" by (simp add: py_eval)

theorem tle_to_kepler6_unparsable_field_witness:
  "length L2_cut < 63 \<and> py_float (slice 43 51 L2_cut) = Inl ValueError
   \<and> (tle_to_kepler6 L1 L2_cut = Inl ValueError \<or> tle_to_kepler6 L1 L2_cut = Inl OverflowError)"
proof -
  have 1: "py_float (slice 43 51 L2_cut) = Inl ValueError"
    by (simp add: cut_slice float_empty)
  have 2: "length L2_cut < 63" by code_simp
  from tle_to_kepler6_unparsable_field [of L1 L2_cut] 1 2 show ?thesis by blast
qed

section \<open>Element sets are not validated\<close>


















end
